theory Spec2Isabelle
  imports Complex_Main
begin

section \<open>Values of the exchange responses\<close>

text \<open>
  The exchange client hands back decoded JSON: every field of a row is one of the
  values below. Python floats are modelled as reals (rounding, infinities and NaN are
  outside the model), Python ints as \<open>int\<close>, strings as byte lists.
\<close>

datatype pyval =
    PNone
  | PBool bool
  | PInt int
  | PFloat real
  | PStr string
  | PList "pyval list"
  | PDict "(string \<times> pyval) list"

text \<open>A row of a response is a dict from field names to values.\<close>

type_synonym row = "string \<rightharpoonup> pyval"

text \<open>
  A response of the client, as the loops look at it: \<open>None\<close> is a response that is
  falsy or has no \<open>data\<close> key (the guard \<open>if r and 'data' in r\<close> fails), \<open>Some rows\<close> is
  a response whose \<open>data\<close> is the list \<open>rows\<close> of dicts.
\<close>

type_synonym response = "row list option"

datatype exn = TypeError | ValueError | AttributeError | FetchError

text \<open>
  What a cycle reads from outside the response: how \<open>float\<close> and \<open>int\<close> read a string
  (\<open>None\<close> is Python's ValueError), and the reading of \<open>int(time.time() * 1000)\<close>.
\<close>

record pyenv =
  str_to_float :: "string \<Rightarrow> real option"
  str_to_int :: "string \<Rightarrow> int option"
  now_ms :: int

text \<open>\<open>d.get(k, default)\<close>\<close>

definition dict_get :: "row \<Rightarrow> string \<Rightarrow> pyval \<Rightarrow> pyval" where
  "dict_get d k dflt = (case d k of None \<Rightarrow> dflt | Some v \<Rightarrow> v)"

text \<open>\<open>float(v)\<close>\<close>

fun py_float :: "pyenv \<Rightarrow> pyval \<Rightarrow> exn + real" where
  "py_float env (PFloat r) = Inr r"
| "py_float env (PInt i) = Inr (real_of_int i)"
| "py_float env (PBool b) = Inr (if b then 1 else 0)"
| "py_float env (PStr s) =
     (case str_to_float env s of None \<Rightarrow> Inl ValueError | Some r \<Rightarrow> Inr r)"
| "py_float env PNone = Inl TypeError"
| "py_float env (PList xs) = Inl TypeError"
| "py_float env (PDict kvs) = Inl TypeError"

text \<open>\<open>int(v)\<close>: a float is truncated towards zero.\<close>

fun py_int :: "pyenv \<Rightarrow> pyval \<Rightarrow> exn + int" where
  "py_int env (PInt i) = Inr i"
| "py_int env (PBool b) = Inr (if b then 1 else 0)"
| "py_int env (PFloat r) = Inr (if 0 \<le> r then \<lfloor>r\<rfloor> else \<lceil>r\<rceil>)"
| "py_int env (PStr s) =
     (case str_to_int env s of None \<Rightarrow> Inl ValueError | Some i \<Rightarrow> Inr i)"
| "py_int env PNone = Inl TypeError"
| "py_int env (PList xs) = Inl TypeError"
| "py_int env (PDict kvs) = Inl TypeError"

text \<open>Truth value of \<open>if v:\<close>\<close>

fun truthy :: "pyval \<Rightarrow> bool" where
  "truthy PNone = False"
| "truthy (PBool b) = b"
| "truthy (PInt i) = (i \<noteq> 0)"
| "truthy (PFloat r) = (r \<noteq> 0)"
| "truthy (PStr s) = (s \<noteq> [])"
| "truthy (PList xs) = (xs \<noteq> [])"
| "truthy (PDict kvs) = (kvs \<noteq> [])"

section \<open>Symbol normalizer\<close>

text \<open>\<open>s.replace('-', '')\<close> on a string.\<close>

definition replace_dash :: "string \<Rightarrow> string" where
  "replace_dash s = filter (\<lambda>c. c \<noteq> CHR ''-'') s"

text \<open>\<open>v.replace('-', '')\<close> on a field value: only a string has the method.\<close>

fun py_replace_dash :: "pyval \<Rightarrow> exn + string" where
  "py_replace_dash (PStr s) = Inr (replace_dash s)"
| "py_replace_dash v = Inl AttributeError"

text \<open>\<open>s.endswith(suf)\<close>\<close>

definition endswith :: "string \<Rightarrow> string \<Rightarrow> bool" where
  "endswith s suf = (length suf \<le> length s \<and> drop (length s - length suf) s = suf)"

text \<open>\<open>_to_blofin_symbol\<close>; \<open>symbol[:-4]\<close> is \<open>take (length symbol - 4) symbol\<close>.\<close>

definition to_blofin_symbol :: "string \<Rightarrow> string" where
  "to_blofin_symbol symbol =
     (if endswith symbol ''USDT'' then take (length symbol - 4) symbol @ ''-USDT''
      else if endswith symbol ''USDC'' then take (length symbol - 4) symbol @ ''-USDC''
      else symbol)"




section \<open>Records handed to the repository\<close>

text \<open>
  Modelled from the spec: the data classes of \<open>scraper_root.scraper.data_classes\<close>
  (AssetBalance, Balance, Position, Order, Tick, Income) are not part of the sources;
  their fields are the keyword arguments and attributes \<open>blofinfutures.py\<close> gives them.
  A field that receives a raw field of a row keeps the type \<open>pyval\<close>.
\<close>

record asset_balance =
  ab_asset :: pyval
  ab_balance :: real
  ab_unrealizedProfit :: real

record balance =
  bal_totalBalance :: real
  bal_totalUnrealizedProfit :: real
  bal_assets :: "asset_balance list"

record position =
  pos_symbol :: string
  pos_entry_price :: real
  pos_position_size :: real
  pos_side :: string
  pos_unrealizedProfit :: real
  pos_initial_margin :: real
  pos_market_price :: real


record tick =
  tick_symbol :: string
  tick_price :: real
  tick_qty :: real
  tick_timestamp :: int

record income =
  inc_symbol :: string
  inc_asset :: string
  inc_type :: string
  inc_income :: real
  inc_timestamp :: int
  inc_transaction_id :: pyval

text \<open>The fields of the synchronizer that the loops read and write.\<close>

record scraper =
  symbols :: "string list"
  activesymbols :: "pyval list"

section \<open>Balance sync\<close>

text \<open>
  The loop over \<open>assets_data\<close> in \<open>sync_account\<close>, with \<open>total_balance\<close> and
  \<open>asset_balances\<close> passed along. An exception leaves the loop with \<open>Inl\<close>.
\<close>

fun assets_loop ::
  "pyenv \<Rightarrow> row list \<Rightarrow> real \<Rightarrow> asset_balance list \<Rightarrow> exn + (real \<times> asset_balance list)" where
  "assets_loop env [] total_balance asset_balances = Inr (total_balance, asset_balances)"
| "assets_loop env (asset # rest) total_balance asset_balances =
     (let currency = dict_get asset ''currency'' (PStr ''USDT'') in
      case py_float env (dict_get asset ''balance'' (PInt 0)) of
        Inl e \<Rightarrow> Inl e
      | Inr balance_val \<Rightarrow>
          (case py_float env (dict_get asset ''available'' (PInt 0)) of
             Inl e \<Rightarrow> Inl e
           | Inr available \<Rightarrow>
               if currency = PStr ''USDT''
               then assets_loop env rest balance_val asset_balances
               else assets_loop env rest total_balance
                      (asset_balances @
                        [\<lparr>ab_asset = currency, ab_balance = balance_val,
                          ab_unrealizedProfit = 0\<rparr>])))"

text \<open>
  The inner \<open>try\<close> of \<open>sync_account\<close>: the sum of \<open>unrealizedPnl\<close> over the positions.
  An exception is passed over, and \<open>total_upnl\<close> keeps what was added before it.
\<close>

fun upnl_loop :: "pyenv \<Rightarrow> row list \<Rightarrow> real \<Rightarrow> real" where
  "upnl_loop env [] total_upnl = total_upnl"
| "upnl_loop env (pos # rest) total_upnl =
     (case py_float env (dict_get pos ''unrealizedPnl'' (PInt 0)) of
        Inl e \<Rightarrow> total_upnl
      | Inr upnl \<Rightarrow> upnl_loop env rest (total_upnl + upnl))"

definition total_upnl_of :: "pyenv \<Rightarrow> exn + response \<Rightarrow> real" where
  "total_upnl_of env positions_resp =
     (case positions_resp of
        Inl e \<Rightarrow> 0
      | Inr None \<Rightarrow> 0
      | Inr (Some data) \<Rightarrow> upnl_loop env data 0)"

text \<open>
  One cycle of \<open>sync_account\<close>, given what \<open>get_balance\<close> and \<open>get_positions\<close> return or
  raise. \<open>Inr (Some b)\<close>: \<open>b\<close> went to \<open>process_balances\<close>; \<open>Inr None\<close>: nothing was sent;
  \<open>Inl e\<close>: the cycle ended in the outer \<open>except\<close>.
\<close>

definition sync_account_cycle ::
  "pyenv \<Rightarrow> exn + response \<Rightarrow> exn + response \<Rightarrow> exn + balance option" where
  "sync_account_cycle env account positions_resp =
     (case account of
        Inl e \<Rightarrow> Inl e
      | Inr None \<Rightarrow> Inr None
      | Inr (Some assets_data) \<Rightarrow>
          (case assets_loop env assets_data 0 [] of
             Inl e \<Rightarrow> Inl e
           | Inr (total_balance, asset_balances) \<Rightarrow>
               Inr (Some \<lparr>bal_totalBalance = total_balance,
                          bal_totalUnrealizedProfit = total_upnl_of env positions_resp,
                          bal_assets = asset_balances\<rparr>)))"

section \<open>Position sync\<close>

text \<open>Lines 132 to 139 of \<open>sync_positions\<close>: the side of a position.\<close>

definition position_side :: "row \<Rightarrow> real \<Rightarrow> string" where
  "position_side pos quantity =
     (let pos_side = dict_get pos ''positionSide'' (PStr ''net'') in
      if pos_side = PStr ''long'' then ''LONG''
      else if pos_side = PStr ''short'' then ''SHORT''
      else if quantity > 0 then ''LONG'' else ''SHORT'')"

text \<open>The \<open>Position(...)\<close> of a row whose quantity is not zero.\<close>

definition make_position :: "pyenv \<Rightarrow> row \<Rightarrow> real \<Rightarrow> exn + position" where
  "make_position env pos quantity =
     (let inst_id = dict_get pos ''instId'' (PStr []);
          side = position_side pos quantity in
      case py_replace_dash inst_id of
        Inl e \<Rightarrow> Inl e
      | Inr symbol \<Rightarrow>
      (case py_float env (dict_get pos ''averagePrice'' (PInt 0)) of
        Inl e \<Rightarrow> Inl e
      | Inr entry \<Rightarrow>
      (case py_float env (dict_get pos ''unrealizedPnl'' (PInt 0)) of
        Inl e \<Rightarrow> Inl e
      | Inr upnl \<Rightarrow>
      (case py_float env (dict_get pos ''initialMargin'' (PInt 0)) of
        Inl e \<Rightarrow> Inl e
      | Inr margin \<Rightarrow>
      (case py_float env (dict_get pos ''markPrice'' (PInt 0)) of
        Inl e \<Rightarrow> Inl e
      | Inr mark \<Rightarrow>
          Inr \<lparr>pos_symbol = symbol, pos_entry_price = entry,
               pos_position_size = \<bar>quantity\<bar>, pos_side = side,
               pos_unrealizedProfit = upnl, pos_initial_margin = margin,
               pos_market_price = mark\<rparr>)))))"

text \<open>
  The loop over the position rows. \<open>self.activesymbols\<close> is a field of the object, so
  what was appended before an exception stays; the local list \<open>positions\<close> is lost.
\<close>

fun positions_loop ::
  "pyenv \<Rightarrow> row list \<Rightarrow> pyval list \<Rightarrow> position list \<Rightarrow> (exn + position list) \<times> pyval list" where
  "positions_loop env [] active positions = (Inr positions, active)"
| "positions_loop env (pos # rest) active positions =
     (case py_float env (dict_get pos ''positions'' (PInt 0)) of
        Inl e \<Rightarrow> (Inl e, active)
      | Inr quantity \<Rightarrow>
          if quantity \<noteq> 0 then
            (let inst_id = dict_get pos ''instId'' (PStr []);
                 active' = active @ [inst_id] in
             case make_position env pos quantity of
               Inl e \<Rightarrow> (Inl e, active')
             | Inr p \<Rightarrow> positions_loop env rest active' (positions @ [p]))
          else positions_loop env rest active positions)"

text \<open>
  One cycle of \<open>sync_positions\<close>. \<open>Inr ps\<close>: \<open>ps\<close> went to \<open>process_positions\<close>;
  \<open>Inl e\<close>: the cycle ended in the \<open>except\<close>.
\<close>

definition sync_positions_cycle ::
  "pyenv \<Rightarrow> scraper \<Rightarrow> exn + response \<Rightarrow> (exn + position list) \<times> scraper" where
  "sync_positions_cycle env self exchange_positions =
     (let self1 = self\<lparr>activesymbols := [PStr ''BTC-USDT'']\<rparr> in
      case exchange_positions of
        Inl e \<Rightarrow> (Inl e, self1)
      | Inr None \<Rightarrow> (Inr [], self1)
      | Inr (Some data) \<Rightarrow>
          (case positions_loop env data (activesymbols self1) [] of
             (r, active) \<Rightarrow> (r, self1\<lparr>activesymbols := active\<rparr>)))"

section \<open>Open order sync\<close>




section \<open>Tick sync\<close>

text \<open>
  \<open>list(set(xs))\<close>: a value that is a list or a dict cannot be hashed; the others are
  compared as Python compares them (numbers by value). The order in which a set is
  iterated is not fixed by Python; this model keeps the order of first occurrence.
\<close>

fun hashable :: "pyval \<Rightarrow> bool" where
  "hashable (PList xs) = False"
| "hashable (PDict kvs) = False"
| "hashable v = True"

fun py_num :: "pyval \<Rightarrow> real option" where
  "py_num (PBool b) = Some (if b then 1 else 0)"
| "py_num (PInt i) = Some (real_of_int i)"
| "py_num (PFloat r) = Some r"
| "py_num v = None"

definition py_eq :: "pyval \<Rightarrow> pyval \<Rightarrow> bool" where
  "py_eq a b =
     (case (py_num a, py_num b) of
        (Some x, Some y) \<Rightarrow> x = y
      | (None, None) \<Rightarrow> a = b
      | _ \<Rightarrow> False)"

primrec py_set_list :: "pyval list \<Rightarrow> pyval list" where
  "py_set_list [] = []"
| "py_set_list (x # xs) = x # filter (\<lambda>y. \<not> py_eq x y) (py_set_list xs)"

definition symbols_to_fetch :: "pyval list \<Rightarrow> string \<Rightarrow> exn + pyval list" where
  "symbols_to_fetch active symbol =
     (let xs = active @ [PStr (to_blofin_symbol symbol)] in
      if list_all hashable xs then Inr (py_set_list xs) else Inl TypeError)"

text \<open>
  The body of the inner \<open>try\<close> of \<open>sync_current_price\<close> for one symbol, given the
  client's \<open>get_tickers\<close>. \<open>Inr (Some t)\<close>: \<open>t\<close> went to \<open>process_tick\<close>; \<open>Inr None\<close>: the
  guard on the response failed; \<open>Inl e\<close>: the inner \<open>except\<close> was taken.
\<close>

definition tick_body ::
  "pyenv \<Rightarrow> (pyval \<Rightarrow> exn + response) \<Rightarrow> pyval \<Rightarrow> exn + tick option" where
  "tick_body env get_tickers inst =
     (case get_tickers inst of
        Inl e \<Rightarrow> Inl e
      | Inr None \<Rightarrow> Inr None
      | Inr (Some []) \<Rightarrow> Inr None
      | Inr (Some (tick_data # others)) \<Rightarrow>
      (case py_replace_dash inst of
        Inl e \<Rightarrow> Inl e
      | Inr s \<Rightarrow>
      (case py_float env (dict_get tick_data ''last'' (PInt 0)) of
        Inl e \<Rightarrow> Inl e
      | Inr price \<Rightarrow>
      (case py_float env (dict_get tick_data ''lastSize'' (PInt 0)) of
        Inl e \<Rightarrow> Inl e
      | Inr qty \<Rightarrow>
      (case py_int env (dict_get tick_data ''ts'' (PInt (now_ms env))) of
        Inl e \<Rightarrow> Inl e
      | Inr ts \<Rightarrow>
          Inr (Some \<lparr>tick_symbol = s, tick_price = price, tick_qty = qty,
                     tick_timestamp = ts\<rparr>))))))"

text \<open>
  The loop over \<open>symbols_to_fetch\<close>; \<open>sent\<close> are the ticks handed to \<open>process_tick\<close> so
  far. The inner \<open>except\<close> only logs, and the loop goes on with the next symbol.
\<close>

fun tick_loop ::
  "pyenv \<Rightarrow> (pyval \<Rightarrow> exn + response) \<Rightarrow> pyval list \<Rightarrow> tick list \<Rightarrow> tick list" where
  "tick_loop env get_tickers [] sent = sent"
| "tick_loop env get_tickers (inst # rest) sent =
     (case tick_body env get_tickers inst of
        Inl e \<Rightarrow> tick_loop env get_tickers rest sent
      | Inr None \<Rightarrow> tick_loop env get_tickers rest sent
      | Inr (Some t) \<Rightarrow> tick_loop env get_tickers rest (sent @ [t]))"

definition sync_current_price_cycle ::
  "pyenv \<Rightarrow> (pyval \<Rightarrow> exn + response) \<Rightarrow> scraper \<Rightarrow> string \<Rightarrow> exn + tick list" where
  "sync_current_price_cycle env get_tickers self symbol =
     (case symbols_to_fetch (activesymbols self) symbol of
        Inl e \<Rightarrow> Inl e
      | Inr syms \<Rightarrow> Inr (tick_loop env get_tickers syms []))"

section \<open>Trade and income history sync\<close>

text \<open>The \<open>Income(...)\<close> of a filled row with a realized PnL.\<close>

definition make_income :: "pyenv \<Rightarrow> row \<Rightarrow> real \<Rightarrow> real \<Rightarrow> exn + income" where
  "make_income env trade pnl fee =
     (let inst_id = dict_get trade ''instId'' (PStr []) in
      case py_replace_dash inst_id of
        Inl e \<Rightarrow> Inl e
      | Inr symbol \<Rightarrow>
      (case py_int env (dict_get trade ''updateTime'' (PInt (now_ms env))) of
        Inl e \<Rightarrow> Inl e
      | Inr ts \<Rightarrow>
          Inr \<lparr>inc_symbol = symbol, inc_asset = ''USDT'', inc_type = ''REALIZED_PNL'',
               inc_income = pnl + fee, inc_timestamp = ts,
               inc_transaction_id = dict_get trade ''orderId'' (PStr [])\<rparr>))"

text \<open>
  The loop over one page of the order history, with \<open>incomes\<close> and \<open>last_synced_id\<close>
  passed along. \<open>last_synced_id\<close> lives outside the \<open>try\<close>, so it keeps what it was
  given before an exception; \<open>incomes\<close> is lost.
\<close>

fun trades_loop ::
  "pyenv \<Rightarrow> row list \<Rightarrow> income list \<Rightarrow> pyval \<Rightarrow> (exn + income list) \<times> pyval" where
  "trades_loop env [] incomes last_synced_id = (Inr incomes, last_synced_id)"
| "trades_loop env (trade # rest) incomes last_synced_id =
     (let state = dict_get trade ''state'' (PStr []) in
      if state \<noteq> PStr ''filled'' then trades_loop env rest incomes last_synced_id
      else
      (case py_float env (dict_get trade ''pnl'' (PInt 0)) of
        Inl e \<Rightarrow> (Inl e, last_synced_id)
      | Inr pnl \<Rightarrow>
      (case py_float env (dict_get trade ''fee'' (PInt 0)) of
        Inl e \<Rightarrow> (Inl e, last_synced_id)
      | Inr fee \<Rightarrow>
      (case (if pnl \<noteq> 0
             then (case make_income env trade pnl fee of
                     Inl e \<Rightarrow> Inl e
                   | Inr income \<Rightarrow> Inr (incomes @ [income]))
             else Inr incomes) of
        Inl e \<Rightarrow> (Inl e, last_synced_id)
      | Inr incomes' \<Rightarrow>
          (let order_id = dict_get trade ''orderId'' PNone in
           trades_loop env rest incomes'
             (if truthy order_id then order_id else last_synced_id))))))"

text \<open>
  One cycle of \<open>sync_trades\<close>, given the client's \<open>get_order_history\<close> as a function of
  the \<open>after\<close> parameter (absent while the cursor is falsy). The first component is
  \<open>Inr (Some incomes)\<close> when \<open>incomes\<close> went to \<open>process_incomes\<close>, \<open>Inr None\<close> when
  nothing was sent, \<open>Inl e\<close> when the \<open>except\<close> was taken; the second is the cursor
  the next cycle starts from.
\<close>

definition sync_trades_cycle ::
  "pyenv \<Rightarrow> (pyval option \<Rightarrow> exn + response) \<Rightarrow> pyval \<Rightarrow> (exn + income list option) \<times> pyval" where
  "sync_trades_cycle env get_order_history last_synced_id =
     (case get_order_history (if truthy last_synced_id then Some last_synced_id else None) of
        Inl e \<Rightarrow> (Inl e, last_synced_id)
      | Inr None \<Rightarrow> (Inr None, last_synced_id)
      | Inr (Some data) \<Rightarrow>
          (case trades_loop env data [] last_synced_id of
             (Inl e, cursor) \<Rightarrow> (Inl e, cursor)
           | (Inr incomes, cursor) \<Rightarrow>
               (Inr (if incomes \<noteq> [] then Some incomes else None), cursor)))"

section \<open>Notions used to state the properties\<close>

text \<open>The fields of a row as the loops read them.\<close>

definition filled :: "row \<Rightarrow> bool" where
  "filled trade = (dict_get trade ''state'' (PStr []) = PStr ''filled'')"

definition order_id_of :: "row \<Rightarrow> pyval" where
  "order_id_of trade = dict_get trade ''orderId'' PNone"

definition currency_of :: "row \<Rightarrow> pyval" where
  "currency_of asset = dict_get asset ''currency'' (PStr ''USDT'')"

definition inst_id_of :: "row \<Rightarrow> pyval" where
  "inst_id_of pos = dict_get pos ''instId'' (PStr [])"

text \<open>A numeric field read by \<open>float\<close>, and 0 where \<open>float\<close> raises.\<close>

definition float_field :: "pyenv \<Rightarrow> row \<Rightarrow> string \<Rightarrow> real" where
  "float_field env r k =
     (case py_float env (dict_get r k (PInt 0)) of Inl e \<Rightarrow> 0 | Inr x \<Rightarrow> x)"

text \<open>
  The maximum order id of a page in the words of the specification: the greatest of
  the order ids of its rows, read as integers.
\<close>

definition order_id_value :: "pyenv \<Rightarrow> row \<Rightarrow> int option" where
  "order_id_value env trade =
     (case py_int env (order_id_of trade) of Inl e \<Rightarrow> None | Inr i \<Rightarrow> Some i)"

definition spec_max_order_id :: "pyenv \<Rightarrow> row list \<Rightarrow> int option" where
  "spec_max_order_id env page =
     (case List.map_filter (order_id_value env) page of
        [] \<Rightarrow> None
      | x # xs \<Rightarrow> Some (fold max xs x))"

text \<open>
  An environment for concrete runs: strings of decimal digits are read as numbers,
  every other string is refused.
\<close>

definition digit_of :: "char \<Rightarrow> nat option" where
  "digit_of c =
     (let n = (of_char c :: nat) in if 48 \<le> n \<and> n \<le> 57 then Some (n - 48) else None)"

fun read_digits :: "string \<Rightarrow> nat \<Rightarrow> nat option" where
  "read_digits [] acc = Some acc"
| "read_digits (c # cs) acc =
     (case digit_of c of None \<Rightarrow> None | Some d \<Rightarrow> read_digits cs (10 * acc + d))"

definition read_decimal :: "string \<Rightarrow> int option" where
  "read_decimal s = (if s = [] then None else map_option int (read_digits s 0))"

definition sample_env :: pyenv where
  "sample_env =
     \<lparr>str_to_float = (\<lambda>s. map_option real_of_int (read_decimal s)),
      str_to_int = read_decimal,
      now_ms = 1700000000000\<rparr>"

text \<open>
  A row of the order history all of whose fields can be read: \<open>float\<close> accepts \<open>pnl\<close>
  and \<open>fee\<close>, \<open>instId\<close> is a string and \<open>int\<close> accepts \<open>updateTime\<close>.
\<close>

definition readable_trade :: "pyenv \<Rightarrow> row \<Rightarrow> bool" where
  "readable_trade env trade =
     (\<not> isl (py_float env (dict_get trade ''pnl'' (PInt 0)))
      \<and> \<not> isl (py_float env (dict_get trade ''fee'' (PInt 0)))
      \<and> \<not> isl (py_replace_dash (dict_get trade ''instId'' (PStr [])))
      \<and> \<not> isl (py_int env (dict_get trade ''updateTime'' (PInt (now_ms env)))))"

section \<open>A fact about lists\<close>

lemma list_all2_map_eq:
  "list_all2 (\<lambda>x y. P x y) xs ys \<Longrightarrow> (\<And>x y. P x y \<Longrightarrow> g y = f x) \<Longrightarrow> map g ys = map f xs"
  by (induction xs ys rule: list_all2_induct) auto

section \<open>Symbol conversion round trips\<close>











section \<open>Balance sync: the partition of the asset rows\<close>

lemma assets_loop_result:
  "assets_loop env rows tb acc = Inr (tb', acc') \<Longrightarrow>
   tb' = (case filter (\<lambda>a. currency_of a = PStr ''USDT'') rows of
               [] \<Rightarrow> tb
             | us \<Rightarrow> float_field env (last us) ''balance'')
   \<and> acc' = acc @
        map (\<lambda>a. \<lparr>ab_asset = currency_of a, ab_balance = float_field env a ''balance'',
                   ab_unrealizedProfit = 0\<rparr>)
          (filter (\<lambda>a. currency_of a \<noteq> PStr ''USDT'') rows)"
proof (induction rows arbitrary: tb acc)
  case Nil
  then show ?case by simp
next
  case (Cons a rest)
  from Cons.prems obtain b where
    b: "py_float env (dict_get a ''balance'' (PInt 0)) = Inr b"
    by (auto simp: Let_def split: sum.splits)
  from Cons.prems b obtain v where
    v: "py_float env (dict_get a ''available'' (PInt 0)) = Inr v"
    by (auto simp: Let_def split: sum.splits)
  have fb: "float_field env a ''balance'' = b"
    by (simp add: float_field_def b)
  show ?case
  proof (cases "currency_of a = PStr ''USDT''")
    case True
    with Cons.prems b v have "assets_loop env rest b acc = Inr (tb', acc')"
      by (simp add: currency_of_def Let_def)
    from Cons.IH [OF this] True fb show ?thesis
      by (simp split: list.splits)
  next
    case False
    with Cons.prems b v have
      "assets_loop env rest tb
         (acc @ [\<lparr>ab_asset = currency_of a, ab_balance = b, ab_unrealizedProfit = 0\<rparr>])
       = Inr (tb', acc')"
      by (simp add: currency_of_def Let_def)
    from Cons.IH [OF this] False fb show ?thesis
      by simp
  qed
qed

lemma sync_account_cycle_result:
  assumes "sync_account_cycle env (Inr (Some rows)) positions_resp = Inr (Some b)"
  shows "bal_totalBalance b =
           (case filter (\<lambda>a. currency_of a = PStr ''USDT'') rows of
              [] \<Rightarrow> 0
            | us \<Rightarrow> float_field env (last us) ''balance'')
       \<and> bal_assets b =
           map (\<lambda>a. \<lparr>ab_asset = currency_of a, ab_balance = float_field env a ''balance'',
                      ab_unrealizedProfit = 0\<rparr>)
             (filter (\<lambda>a. currency_of a \<noteq> PStr ''USDT'') rows)
       \<and> bal_totalUnrealizedProfit b = total_upnl_of env positions_resp"
proof -
  from assms obtain t as where
    l: "assets_loop env rows 0 [] = Inr (t, as)" and
    b: "b = \<lparr>bal_totalBalance = t,
             bal_totalUnrealizedProfit = total_upnl_of env positions_resp,
             bal_assets = as\<rparr>"
    by (auto simp: sync_account_cycle_def split: sum.splits)
  from assets_loop_result [OF l] b show ?thesis by simp
qed

lemma currency_of_USDT_iff:
  "currency_of a = PStr ''USDT'' \<longleftrightarrow>
     (a ''currency'' = None \<or> a ''currency'' = Some (PStr ''USDT''))"
  by (auto simp: currency_of_def dict_get_def split: option.splits)

lemma asset_entries_by_key:
  "map (\<lambda>a. \<lparr>ab_asset = currency_of a, ab_balance = float_field env a ''balance'',
              ab_unrealizedProfit = 0\<rparr>)
     (filter (\<lambda>a. currency_of a \<noteq> PStr ''USDT'') rows)
   = List.map_filter
       (\<lambda>a. case a ''currency'' of
               None \<Rightarrow> None
             | Some c \<Rightarrow>
                 if c = PStr ''USDT'' then None
                 else Some \<lparr>ab_asset = c, ab_balance = float_field env a ''balance'',
                            ab_unrealizedProfit = 0\<rparr>) rows"
  by (induction rows)
    (auto simp: map_filter_simps currency_of_def dict_get_def split: option.splits)

text \<open>
  C6. A balance sync cycle partitions the asset rows: the balance of the row whose
  currency is USDT becomes totalBalance (the last such row when there are several, 0
  when there is none), and every other row becomes an AssetBalance entry with its
  currency, its balance and unrealizedProfit 0, in the order of the rows;
  totalUnrealizedProfit is the sum over the positions. In particular the rows
  \<open>[{currency: USDT, balance: 100.0}, {currency: BTC, balance: 0.002}]\<close> with positions
  whose unrealizedPnl sums to 5.0 give totalBalance 100.0, totalUnrealizedProfit 5.0
  and the assets \<open>[{BTC, 0.002, 0.0}]\<close>.
\<close>

theorem balance_partition:
  "(\<forall>b. sync_account_cycle env (Inr (Some rows)) positions_resp = Inr (Some b) \<longrightarrow>
      bal_totalBalance b =
        (case filter (\<lambda>a. currency_of a = PStr ''USDT'') rows of
           [] \<Rightarrow> 0
         | us \<Rightarrow> float_field env (last us) ''balance'')
      \<and> bal_assets b =
          map (\<lambda>a. \<lparr>ab_asset = currency_of a, ab_balance = float_field env a ''balance'',
                     ab_unrealizedProfit = 0\<rparr>)
            (filter (\<lambda>a. currency_of a \<noteq> PStr ''USDT'') rows)
      \<and> bal_totalUnrealizedProfit b = total_upnl_of env positions_resp)
   \<and> (total_upnl_of env positions_resp = 5 \<longrightarrow>
        sync_account_cycle env
          (Inr (Some [[''currency'' \<mapsto> PStr ''USDT'', ''balance'' \<mapsto> PFloat 100],
                      [''currency'' \<mapsto> PStr ''BTC'', ''balance'' \<mapsto> PFloat 0.002]]))
          positions_resp
        = Inr (Some \<lparr>bal_totalBalance = 100, bal_totalUnrealizedProfit = 5,
                     bal_assets = [\<lparr>ab_asset = PStr ''BTC'', ab_balance = 0.002,
                                    ab_unrealizedProfit = 0\<rparr>]\<rparr>))"
proof (intro conjI allI impI)
  fix b
  assume a: "sync_account_cycle env (Inr (Some rows)) positions_resp = Inr (Some b)"
  from sync_account_cycle_result [OF a]
  show "bal_totalBalance b =
        (case filter (\<lambda>a. currency_of a = PStr ''USDT'') rows of
           [] \<Rightarrow> 0
         | us \<Rightarrow> float_field env (last us) ''balance'')"
    and "bal_assets b =
          map (\<lambda>a. \<lparr>ab_asset = currency_of a, ab_balance = float_field env a ''balance'',
                     ab_unrealizedProfit = 0\<rparr>)
            (filter (\<lambda>a. currency_of a \<noteq> PStr ''USDT'') rows)"
    and "bal_totalUnrealizedProfit b = total_upnl_of env positions_resp"
    by simp_all
next
  assume "total_upnl_of env positions_resp = 5"
  then show "sync_account_cycle env
          (Inr (Some [[''currency'' \<mapsto> PStr ''USDT'', ''balance'' \<mapsto> PFloat 100],
                      [''currency'' \<mapsto> PStr ''BTC'', ''balance'' \<mapsto> PFloat 0.002]]))
          positions_resp
        = Inr (Some \<lparr>bal_totalBalance = 100, bal_totalUnrealizedProfit = 5,
                     bal_assets = [\<lparr>ab_asset = PStr ''BTC'', ab_balance = 0.002,
                                    ab_unrealizedProfit = 0\<rparr>]\<rparr>)"
    by (simp add: sync_account_cycle_def dict_get_def Let_def)
qed

lemmas account_simps = sample_env_def read_decimal_def digit_of_def dict_get_def
  Let_def float_field_def currency_of_def sync_account_cycle_def total_upnl_of_def
  List.map_filter_def

theorem balance_partition_witness:
  "total_upnl_of sample_env
     (Inr (Some [[''unrealizedPnl'' \<mapsto> PFloat 2], [''unrealizedPnl'' \<mapsto> PStr ''3'']])) = 5
   \<and> sync_account_cycle sample_env
        (Inr (Some [[''currency'' \<mapsto> PStr ''USDT'', ''balance'' \<mapsto> PFloat 100],
                    [''currency'' \<mapsto> PStr ''BTC'', ''balance'' \<mapsto> PFloat 0.002]]))
        (Inr (Some [[''unrealizedPnl'' \<mapsto> PFloat 2], [''unrealizedPnl'' \<mapsto> PStr ''3'']]))
      = Inr (Some \<lparr>bal_totalBalance = 100, bal_totalUnrealizedProfit = 5,
                   bal_assets = [\<lparr>ab_asset = PStr ''BTC'', ab_balance = 0.002,
                                  ab_unrealizedProfit = 0\<rparr>]\<rparr>)"
  using balance_partition [of sample_env
     "[[''currency'' \<mapsto> PStr ''USDT'', ''balance'' \<mapsto> PFloat 100],
       [''currency'' \<mapsto> PStr ''BTC'', ''balance'' \<mapsto> PFloat 0.002]]"
     "Inr (Some [[''unrealizedPnl'' \<mapsto> PFloat 2], [''unrealizedPnl'' \<mapsto> PStr ''3'']])"]
  by (simp add: account_simps)

text \<open>
  C10. An asset row with no \<open>currency\<close> field is treated as the USDT row: totalBalance
  is the balance of the last row that has no currency field or has the currency USDT,
  and such a row gives no AssetBalance entry; the AssetBalance entries are those of the
  rows whose currency is present and different from USDT.
\<close>

theorem missing_currency_is_quote_row:
  assumes "sync_account_cycle env (Inr (Some rows)) positions_resp = Inr (Some b)"
  shows "bal_totalBalance b =
           (case filter (\<lambda>a. a ''currency'' = None \<or> a ''currency'' = Some (PStr ''USDT'')) rows of
              [] \<Rightarrow> 0
            | us \<Rightarrow> float_field env (last us) ''balance'')
       \<and> bal_assets b =
           List.map_filter
             (\<lambda>a. case a ''currency'' of
                     None \<Rightarrow> None
                   | Some c \<Rightarrow>
                       if c = PStr ''USDT'' then None
                       else Some \<lparr>ab_asset = c, ab_balance = float_field env a ''balance'',
                                  ab_unrealizedProfit = 0\<rparr>) rows"
proof -
  have "filter (\<lambda>a. a ''currency'' = None \<or> a ''currency'' = Some (PStr ''USDT'')) rows
      = filter (\<lambda>a. currency_of a = PStr ''USDT'') rows"
    by (simp add: currency_of_USDT_iff)
  with sync_account_cycle_result [OF assms] asset_entries_by_key [of env rows]
  show ?thesis by simp
qed

theorem missing_currency_is_quote_row_witness:
  "sync_account_cycle sample_env
     (Inr (Some [[''balance'' \<mapsto> PFloat 50],
                 [''currency'' \<mapsto> PStr ''USDT'', ''balance'' \<mapsto> PFloat 70],
                 [''currency'' \<mapsto> PStr ''BTC'', ''balance'' \<mapsto> PFloat 0.002],
                 [''balance'' \<mapsto> PFloat 100, ''available'' \<mapsto> PFloat 90]]))
     (Inl FetchError)
   = Inr (Some \<lparr>bal_totalBalance = 100, bal_totalUnrealizedProfit = 0,
                bal_assets = [\<lparr>ab_asset = PStr ''BTC'', ab_balance = 0.002,
                               ab_unrealizedProfit = 0\<rparr>]\<rparr>)"
  using missing_currency_is_quote_row [of sample_env
     "[[''balance'' \<mapsto> PFloat 50],
       [''currency'' \<mapsto> PStr ''USDT'', ''balance'' \<mapsto> PFloat 70],
       [''currency'' \<mapsto> PStr ''BTC'', ''balance'' \<mapsto> PFloat 0.002],
       [''balance'' \<mapsto> PFloat 100, ''available'' \<mapsto> PFloat 90]]"
     "Inl FetchError"]
  by (simp add: account_simps)

section \<open>Open order sync: the side of an order\<close>







section \<open>Position sync: positions and active symbols\<close>

lemma make_position_fields:
  "make_position env pos q = Inr p \<Longrightarrow>
   pos_position_size p = \<bar>q\<bar> \<and> pos_side p = position_side pos q
   \<and> py_replace_dash (inst_id_of pos) = Inr (pos_symbol p)"
  by (auto simp: make_position_def inst_id_of_def Let_def split: sum.splits)

lemma positions_loop_result:
  "positions_loop env rows active ps = (Inr out, active') \<Longrightarrow>
   active' = active @ map inst_id_of (filter (\<lambda>r. float_field env r ''positions'' \<noteq> 0) rows)
   \<and> (\<exists>new. out = ps @ new
        \<and> list_all2 (\<lambda>r p. make_position env r (float_field env r ''positions'') = Inr p)
             (filter (\<lambda>r. float_field env r ''positions'' \<noteq> 0) rows) new)"
proof (induction rows arbitrary: active ps)
  case Nil
  then show ?case by simp
next
  case (Cons r rest)
  from Cons.prems obtain q where
    q: "py_float env (dict_get r ''positions'' (PInt 0)) = Inr q"
    by (auto split: sum.splits)
  have fq: "float_field env r ''positions'' = q"
    by (simp add: float_field_def q)
  show ?case
  proof (cases "q = 0")
    case True
    with Cons.prems q have "positions_loop env rest active ps = (Inr out, active')"
      by simp
    from Cons.IH [OF this] True fq show ?thesis by simp
  next
    case False
    with Cons.prems q obtain p where
      m: "make_position env r q = Inr p" and
      l: "positions_loop env rest (active @ [inst_id_of r]) (ps @ [p]) = (Inr out, active')"
      by (auto simp: Let_def inst_id_of_def split: sum.splits)
    from Cons.IH [OF l] obtain new where
      a: "active' = (active @ [inst_id_of r]) @
            map inst_id_of (filter (\<lambda>r. float_field env r ''positions'' \<noteq> 0) rest)" and
      n: "out = (ps @ [p]) @ new" and
      n2: "list_all2 (\<lambda>r p. make_position env r (float_field env r ''positions'') = Inr p)
             (filter (\<lambda>r. float_field env r ''positions'' \<noteq> 0) rest) new"
      by blast
    from m fq False n2
    have "list_all2 (\<lambda>r p. make_position env r (float_field env r ''positions'') = Inr p)
             (filter (\<lambda>r. float_field env r ''positions'' \<noteq> 0) (r # rest)) (p # new)"
      by simp
    moreover from n have "out = ps @ (p # new)" by simp
    moreover from a fq False
    have "active' = active @
            map inst_id_of (filter (\<lambda>r. float_field env r ''positions'' \<noteq> 0) (r # rest))"
      by simp
    ultimately show ?thesis by blast
  qed
qed

lemma sync_positions_cycle_data:
  "sync_positions_cycle env self (Inr (Some rows)) =
     (fst (positions_loop env rows [PStr ''BTC-USDT''] []),
      self\<lparr>activesymbols := snd (positions_loop env rows [PStr ''BTC-USDT''] [])\<rparr>)"
  by (simp add: sync_positions_cycle_def Let_def split: prod.splits)

lemma cycle_positions:
  assumes "fst (sync_positions_cycle env self (Inr (Some rows))) = Inr out"
  shows "list_all2 (\<lambda>r p. make_position env r (float_field env r ''positions'') = Inr p)
             (filter (\<lambda>r. float_field env r ''positions'' \<noteq> 0) rows) out"
    and "activesymbols (snd (sync_positions_cycle env self (Inr (Some rows)))) =
           PStr ''BTC-USDT'' #
           map inst_id_of (filter (\<lambda>r. float_field env r ''positions'' \<noteq> 0) rows)"
proof -
  from assms have "positions_loop env rows [PStr ''BTC-USDT''] [] =
      (Inr out, snd (positions_loop env rows [PStr ''BTC-USDT''] []))"
    by (simp add: sync_positions_cycle_data prod_eq_iff)
  from positions_loop_result [OF this]
  show "list_all2 (\<lambda>r p. make_position env r (float_field env r ''positions'') = Inr p)
             (filter (\<lambda>r. float_field env r ''positions'' \<noteq> 0) rows) out"
    and "activesymbols (snd (sync_positions_cycle env self (Inr (Some rows)))) =
           PStr ''BTC-USDT'' #
           map inst_id_of (filter (\<lambda>r. float_field env r ''positions'' \<noteq> 0) rows)"
    by (auto simp: sync_positions_cycle_data)
qed

text \<open>
  C2 (as amended). Every cycle of the position sync first resets the active symbols to
  the fixed list \<open>["BTC-USDT"]\<close>, whatever symbols the synchronizer was configured with
  (which the cycle leaves untouched); then the instrument id of each position row with
  a size other than zero is appended. After a cycle that processed its rows to the end
  the active symbols are \<open>BTC-USDT\<close> followed by the instrument ids of exactly the rows
  with a size other than zero, in their order; after a cycle whose fetch raised or
  returned no data they are \<open>["BTC-USDT"]\<close>.
\<close>

theorem active_symbols_after_cycle:
  "activesymbols (snd (sync_positions_cycle env self (Inl e))) = [PStr ''BTC-USDT'']
   \<and> activesymbols (snd (sync_positions_cycle env self (Inr None))) = [PStr ''BTC-USDT'']
   \<and> (\<forall>out. fst (sync_positions_cycle env self (Inr (Some rows))) = Inr out \<longrightarrow>
         activesymbols (snd (sync_positions_cycle env self (Inr (Some rows)))) =
           PStr ''BTC-USDT'' #
           map inst_id_of (filter (\<lambda>r. float_field env r ''positions'' \<noteq> 0) rows))
   \<and> symbols (snd (sync_positions_cycle env self resp)) = symbols self"
proof (intro conjI allI impI)
  show "activesymbols (snd (sync_positions_cycle env self (Inl e))) = [PStr ''BTC-USDT'']"
    by (simp add: sync_positions_cycle_def)
  show "activesymbols (snd (sync_positions_cycle env self (Inr None))) = [PStr ''BTC-USDT'']"
    by (simp add: sync_positions_cycle_def)
  show "symbols (snd (sync_positions_cycle env self resp)) = symbols self"
    by (simp add: sync_positions_cycle_def Let_def split: sum.splits option.splits prod.splits)
next
  fix out
  assume "fst (sync_positions_cycle env self (Inr (Some rows))) = Inr out"
  then show "activesymbols (snd (sync_positions_cycle env self (Inr (Some rows)))) =
           PStr ''BTC-USDT'' #
           map inst_id_of (filter (\<lambda>r. float_field env r ''positions'' \<noteq> 0) rows)"
    by (rule cycle_positions(2))
qed

lemmas position_simps = sample_env_def read_decimal_def digit_of_def dict_get_def
  make_position_def position_side_def Let_def float_field_def replace_dash_def
  inst_id_of_def sync_positions_cycle_def

theorem active_symbols_after_cycle_witness:
  "sync_positions_cycle sample_env \<lparr>symbols = [''ETHUSDT''], activesymbols = [PStr ''XRP-USDT'']\<rparr>
     (Inr (Some
        [[''instId'' \<mapsto> PStr ''ETH-USDT'', ''positions'' \<mapsto> PStr ''0''],
         [''instId'' \<mapsto> PStr ''SOL-USDT'', ''positions'' \<mapsto> PFloat (-2),
          ''positionSide'' \<mapsto> PStr ''net'']]))
   = (Inr [\<lparr>pos_symbol = ''SOLUSDT'', pos_entry_price = 0, pos_position_size = 2,
            pos_side = ''SHORT'', pos_unrealizedProfit = 0, pos_initial_margin = 0,
            pos_market_price = 0\<rparr>],
      \<lparr>symbols = [''ETHUSDT''], activesymbols = [PStr ''BTC-USDT'', PStr ''SOL-USDT'']\<rparr>)"
  using active_symbols_after_cycle [of sample_env
     "\<lparr>symbols = [''ETHUSDT''], activesymbols = [PStr ''XRP-USDT'']\<rparr>" FetchError
     "[[''instId'' \<mapsto> PStr ''ETH-USDT'', ''positions'' \<mapsto> PStr ''0''],
       [''instId'' \<mapsto> PStr ''SOL-USDT'', ''positions'' \<mapsto> PFloat (-2),
        ''positionSide'' \<mapsto> PStr ''net'']]" "Inr None"]
  by (simp add: position_simps)

text \<open>
  A synchronizer configured with the symbol \<open>ETHUSDT\<close>: after a cycle with no open
  position the active symbols are \<open>["BTC-USDT"]\<close>, which is not the configured symbol in
  either format.
\<close>

theorem active_symbols_not_the_configured:
  "activesymbols (snd (sync_positions_cycle sample_env
      \<lparr>symbols = [''ETHUSDT''], activesymbols = []\<rparr> (Inr (Some []))))
     = [PStr ''BTC-USDT'']
   \<and> map PStr (symbols \<lparr>symbols = [''ETHUSDT''], activesymbols = []\<rparr>) = [PStr ''ETHUSDT'']
   \<and> map (\<lambda>s. PStr (to_blofin_symbol s)) (symbols \<lparr>symbols = [''ETHUSDT''], activesymbols = []\<rparr>)
       = [PStr ''ETH-USDT'']
   \<and> PStr ''BTC-USDT'' \<noteq> PStr ''ETHUSDT'' \<and> PStr ''BTC-USDT'' \<noteq> PStr ''ETH-USDT''"
  by (simp add: position_simps to_blofin_symbol_def endswith_def)

text \<open>
  C7. The side of an emitted position: LONG for a row whose positionSide is \<open>long\<close>,
  SHORT for one whose positionSide is \<open>short\<close>, whatever the sign of the quantity; for
  any other positionSide (also a missing one, read as \<open>net\<close>) LONG when the quantity is
  positive and SHORT otherwise.
\<close>

theorem position_side_resolution:
  assumes "fst (sync_positions_cycle env self (Inr (Some rows))) = Inr out"
  shows "map pos_side out =
     map (\<lambda>r. if dict_get r ''positionSide'' (PStr ''net'') = PStr ''long'' then ''LONG''
              else if dict_get r ''positionSide'' (PStr ''net'') = PStr ''short'' then ''SHORT''
              else if 0 < float_field env r ''positions'' then ''LONG'' else ''SHORT'')
       (filter (\<lambda>r. float_field env r ''positions'' \<noteq> 0) rows)"
proof (rule list_all2_map_eq [OF cycle_positions(1) [OF assms]])
  fix r p
  assume "make_position env r (float_field env r ''positions'') = Inr p"
  from make_position_fields [OF this]
  show "pos_side p =
     (if dict_get r ''positionSide'' (PStr ''net'') = PStr ''long'' then ''LONG''
      else if dict_get r ''positionSide'' (PStr ''net'') = PStr ''short'' then ''SHORT''
      else if 0 < float_field env r ''positions'' then ''LONG'' else ''SHORT'')"
    by (simp add: position_side_def Let_def)
qed

theorem position_side_resolution_witness:
  "map_sum id (map pos_side) (fst (sync_positions_cycle sample_env
     \<lparr>symbols = [''BTCUSDT''], activesymbols = []\<rparr>
     (Inr (Some
        [[''instId'' \<mapsto> PStr ''BTC-USDT'', ''positions'' \<mapsto> PFloat (-1),
          ''positionSide'' \<mapsto> PStr ''long''],
         [''instId'' \<mapsto> PStr ''ETH-USDT'', ''positions'' \<mapsto> PFloat 1,
          ''positionSide'' \<mapsto> PStr ''short''],
         [''instId'' \<mapsto> PStr ''BTC-USDT'', ''positions'' \<mapsto> PFloat 0.5,
          ''positionSide'' \<mapsto> PStr ''net'', ''averagePrice'' \<mapsto> PInt 50000,
          ''unrealizedPnl'' \<mapsto> PInt 10, ''markPrice'' \<mapsto> PInt 50100],
         [''instId'' \<mapsto> PStr ''SOL-USDT'', ''positions'' \<mapsto> PFloat (-3)]]))))
   = Inr [''LONG'', ''SHORT'', ''LONG'', ''SHORT'']"
  using position_side_resolution [of sample_env
     "\<lparr>symbols = [''BTCUSDT''], activesymbols = []\<rparr>"
     "[[''instId'' \<mapsto> PStr ''BTC-USDT'', ''positions'' \<mapsto> PFloat (-1),
          ''positionSide'' \<mapsto> PStr ''long''],
         [''instId'' \<mapsto> PStr ''ETH-USDT'', ''positions'' \<mapsto> PFloat 1,
          ''positionSide'' \<mapsto> PStr ''short''],
         [''instId'' \<mapsto> PStr ''BTC-USDT'', ''positions'' \<mapsto> PFloat 0.5,
          ''positionSide'' \<mapsto> PStr ''net'', ''averagePrice'' \<mapsto> PInt 50000,
          ''unrealizedPnl'' \<mapsto> PInt 10, ''markPrice'' \<mapsto> PInt 50100],
         [''instId'' \<mapsto> PStr ''SOL-USDT'', ''positions'' \<mapsto> PFloat (-3)]]"]
  by (simp add: position_simps)



section \<open>Tick sync: a failing fetch is skipped\<close>

lemma tick_loop_append:
  "tick_loop env g (xs @ ys) sent = tick_loop env g ys (tick_loop env g xs sent)"
  by (induction xs arbitrary: sent) (auto split: sum.splits option.splits)

lemma tick_loop_sent:
  "tick_loop env g syms sent =
     sent @ List.map_filter
              (\<lambda>s. case tick_body env g s of Inl e \<Rightarrow> None | Inr r \<Rightarrow> r) syms"
  by (induction syms arbitrary: sent)
    (auto simp: map_filter_simps split: sum.splits option.splits)

lemma tick_body_raises: "g s = Inl e \<Longrightarrow> tick_body env g s = Inl e"
  by (simp add: tick_body_def)

lemma tick_body_tick:
  assumes "g (PStr name) = Inr (Some (d # ds))"
    and "py_float env (dict_get d ''last'' (PInt 0)) = Inr price"
    and "py_float env (dict_get d ''lastSize'' (PInt 0)) = Inr qty"
    and "py_int env (dict_get d ''ts'' (PInt (now_ms env))) = Inr ts"
  shows "tick_body env g (PStr name) =
           Inr (Some \<lparr>tick_symbol = replace_dash name, tick_price = price, tick_qty = qty,
                      tick_timestamp = ts\<rparr>)"
  using assms by (simp add: tick_body_def)

text \<open>
  C9. In a tick sync cycle the failure of one symbol's ticker fetch is isolated: when
  the fetch of a symbol raises, that symbol is skipped, and the cycle sends exactly the
  ticks it sends for the other symbols alone; and every symbol of the cycle whose fetch
  returns a row that can be read has its tick sent, whatever the fetches of the other
  symbols do.
\<close>

theorem ticker_failure_is_isolated:
  "(g bad = Inl e \<longrightarrow>
      tick_loop env g (before @ bad # after) [] = tick_loop env g (before @ after) [])
   \<and> (PStr name \<in> set syms
        \<and> g (PStr name) = Inr (Some (d # ds))
        \<and> py_float env (dict_get d ''last'' (PInt 0)) = Inr price
        \<and> py_float env (dict_get d ''lastSize'' (PInt 0)) = Inr qty
        \<and> py_int env (dict_get d ''ts'' (PInt (now_ms env))) = Inr ts \<longrightarrow>
      \<lparr>tick_symbol = replace_dash name, tick_price = price, tick_qty = qty,
        tick_timestamp = ts\<rparr> \<in> set (tick_loop env g syms []))"
proof (intro conjI impI)
  assume "g bad = Inl e"
  then have "tick_body env g bad = Inl e"
    by (rule tick_body_raises)
  then show "tick_loop env g (before @ bad # after) [] = tick_loop env g (before @ after) []"
    by (simp add: tick_loop_append)
next
  assume a: "PStr name \<in> set syms
        \<and> g (PStr name) = Inr (Some (d # ds))
        \<and> py_float env (dict_get d ''last'' (PInt 0)) = Inr price
        \<and> py_float env (dict_get d ''lastSize'' (PInt 0)) = Inr qty
        \<and> py_int env (dict_get d ''ts'' (PInt (now_ms env))) = Inr ts"
  then have "tick_body env g (PStr name) =
           Inr (Some \<lparr>tick_symbol = replace_dash name, tick_price = price, tick_qty = qty,
                      tick_timestamp = ts\<rparr>)"
    by (simp add: tick_body_tick)
  with a have "\<exists>s \<in> set syms. (case tick_body env g s of Inl e \<Rightarrow> None | Inr r \<Rightarrow> r) =
      Some \<lparr>tick_symbol = replace_dash name, tick_price = price, tick_qty = qty,
             tick_timestamp = ts\<rparr>"
    by (intro bexI [of _ "PStr name"]) simp_all
  then show "\<lparr>tick_symbol = replace_dash name, tick_price = price, tick_qty = qty,
        tick_timestamp = ts\<rparr> \<in> set (tick_loop env g syms [])"
    by (auto simp: tick_loop_sent List.map_filter_def image_iff)
qed

lemmas tick_simps = sample_env_def read_decimal_def digit_of_def dict_get_def
  Let_def replace_dash_def tick_body_def sync_current_price_cycle_def
  symbols_to_fetch_def py_eq_def to_blofin_symbol_def endswith_def

theorem ticker_failure_is_isolated_witness:
  "sync_current_price_cycle sample_env
     (\<lambda>s. if s = PStr ''ETH-USDT'' then Inl FetchError
          else if s = PStr ''BTC-USDT''
          then Inr (Some [[''last'' \<mapsto> PStr ''50000'', ''lastSize'' \<mapsto> PStr ''1'',
                           ''ts'' \<mapsto> PStr ''1700000000005'']])
          else Inr (Some [[''last'' \<mapsto> PFloat 150.5, ''lastSize'' \<mapsto> PInt 2]]))
     \<lparr>symbols = [''SOLUSDT''], activesymbols = [PStr ''BTC-USDT'', PStr ''ETH-USDT'']\<rparr>
     ''SOLUSDT''
   = Inr [\<lparr>tick_symbol = ''BTCUSDT'', tick_price = 50000, tick_qty = 1,
            tick_timestamp = 1700000000005\<rparr>,
          \<lparr>tick_symbol = ''SOLUSDT'', tick_price = 150.5, tick_qty = 2,
            tick_timestamp = 1700000000000\<rparr>]"
  using ticker_failure_is_isolated [where env = sample_env
     and g = "\<lambda>s. if s = PStr ''ETH-USDT'' then Inl FetchError
          else if s = PStr ''BTC-USDT''
          then Inr (Some [[''last'' \<mapsto> PStr ''50000'', ''lastSize'' \<mapsto> PStr ''1'',
                           ''ts'' \<mapsto> PStr ''1700000000005'']])
          else Inr (Some [[''last'' \<mapsto> PFloat 150.5, ''lastSize'' \<mapsto> PInt 2]])"
     and bad = "PStr ''ETH-USDT''" and e = FetchError
     and before = "[PStr ''BTC-USDT'']" and after = "[PStr ''SOL-USDT'']"
     and name = "''BTC-USDT''"
     and syms = "[PStr ''BTC-USDT'', PStr ''ETH-USDT'', PStr ''SOL-USDT'']"
     and d = "[''last'' \<mapsto> PStr ''50000'', ''lastSize'' \<mapsto> PStr ''1'',
               ''ts'' \<mapsto> PStr ''1700000000005'']"
     and ds = "[]" and price = 50000 and qty = 1 and ts = 1700000000005]
  by (simp add: tick_simps)

section \<open>Trade and income history sync: incomes and cursor\<close>

lemma trades_loop_cursor:
  "trades_loop env page incs cur = (Inr out, c) \<Longrightarrow>
   c = (case filter (\<lambda>t. filled t \<and> truthy (order_id_of t)) page of
          [] \<Rightarrow> cur
        | ts \<Rightarrow> order_id_of (last ts))"
proof (induction page arbitrary: incs cur)
  case Nil
  then show ?case by simp
next
  case (Cons t rest)
  show ?case
  proof (cases "filled t")
    case False
    with Cons.prems have "trades_loop env rest incs cur = (Inr out, c)"
      by (simp add: filled_def)
    from Cons.IH [OF this] False show ?thesis by simp
  next
    case True
    with Cons.prems obtain incs' where
      r: "trades_loop env rest incs' (if truthy (order_id_of t) then order_id_of t else cur) = (Inr out, c)"
      by (auto simp: filled_def order_id_of_def Let_def split: sum.splits if_splits)
    from Cons.IH [OF r] True show ?thesis
      by (simp split: list.splits)
  qed
qed

lemma make_income_amount:
  "make_income env t p f = Inr inc \<Longrightarrow>
   inc_income inc = p + f \<and> inc_transaction_id inc = dict_get t ''orderId'' (PStr [])
   \<and> inc_asset inc = ''USDT'' \<and> inc_type inc = ''REALIZED_PNL''"
  by (auto simp: make_income_def Let_def split: sum.splits)

lemma trades_loop_incomes:
  "trades_loop env page incs cur = (Inr out, c) \<Longrightarrow>
   \<exists>new. out = incs @ new
     \<and> map inc_income new =
         map (\<lambda>t. float_field env t ''pnl'' + float_field env t ''fee'')
           (filter (\<lambda>t. filled t \<and> float_field env t ''pnl'' \<noteq> 0) page)
     \<and> map inc_transaction_id new =
         map (\<lambda>t. dict_get t ''orderId'' (PStr []))
           (filter (\<lambda>t. filled t \<and> float_field env t ''pnl'' \<noteq> 0) page)"
proof (induction page arbitrary: incs cur)
  case Nil
  then show ?case by simp
next
  case (Cons t rest)
  show ?case
  proof (cases "filled t")
    case False
    with Cons.prems have "trades_loop env rest incs cur = (Inr out, c)"
      by (simp add: filled_def)
    from Cons.IH [OF this] False show ?thesis by simp
  next
    case True
    from True Cons.prems obtain p f where
      p: "py_float env (dict_get t ''pnl'' (PInt 0)) = Inr p" and
      f: "py_float env (dict_get t ''fee'' (PInt 0)) = Inr f"
      by (auto simp: filled_def Let_def split: sum.splits)
    have pf: "float_field env t ''pnl'' = p" "float_field env t ''fee'' = f"
      by (simp_all add: float_field_def p f)
    show ?thesis
    proof (cases "p = 0")
      case z: True
      with True Cons.prems p f obtain cur' where
        "trades_loop env rest incs cur' = (Inr out, c)"
        by (auto simp: filled_def Let_def)
      from Cons.IH [OF this] True z pf show ?thesis by simp
    next
      case nz: False
      with True Cons.prems p f obtain inc cur' where
        m: "make_income env t p f = Inr inc" and
        r: "trades_loop env rest (incs @ [inc]) cur' = (Inr out, c)"
        by (auto simp: filled_def Let_def split: sum.splits)
      from Cons.IH [OF r] obtain new where
        n: "out = (incs @ [inc]) @ new"
          "map inc_income new =
             map (\<lambda>t. float_field env t ''pnl'' + float_field env t ''fee'')
               (filter (\<lambda>t. filled t \<and> float_field env t ''pnl'' \<noteq> 0) rest)"
          "map inc_transaction_id new =
             map (\<lambda>t. dict_get t ''orderId'' (PStr []))
               (filter (\<lambda>t. filled t \<and> float_field env t ''pnl'' \<noteq> 0) rest)"
        by blast
      from make_income_amount [OF m] n True nz pf
      have "out = incs @ (inc # new)
        \<and> map inc_income (inc # new) =
         map (\<lambda>t. float_field env t ''pnl'' + float_field env t ''fee'')
           (filter (\<lambda>t. filled t \<and> float_field env t ''pnl'' \<noteq> 0) (t # rest))
        \<and> map inc_transaction_id (inc # new) =
         map (\<lambda>t. dict_get t ''orderId'' (PStr []))
           (filter (\<lambda>t. filled t \<and> float_field env t ''pnl'' \<noteq> 0) (t # rest))"
        by simp
      then show ?thesis by blast
    qed
  qed
qed

lemma readable_trade_make_income:
  "readable_trade env t \<Longrightarrow> \<exists>inc. make_income env t p f = Inr inc"
  by (auto simp: readable_trade_def make_income_def Let_def split: sum.splits)

lemma trades_loop_completes:
  "list_all (readable_trade env) page \<Longrightarrow> \<exists>out c. trades_loop env page incs cur = (Inr out, c)"
proof (induction page arbitrary: incs cur)
  case Nil
  then show ?case by simp
next
  case (Cons t rest)
  from Cons.prems have rt: "readable_trade env t" and rr: "list_all (readable_trade env) rest"
    by simp_all
  from rt obtain p f where
    p: "py_float env (dict_get t ''pnl'' (PInt 0)) = Inr p" and
    f: "py_float env (dict_get t ''fee'' (PInt 0)) = Inr f"
    unfolding readable_trade_def by (metis isl_def sum.exhaust_sel sum.collapse(2))
  from readable_trade_make_income [OF rt] obtain inc where
    m: "make_income env t p f = Inr inc" by blast
  show ?case
    using Cons.IH [OF rr] p f m by (simp add: Let_def)
qed

text \<open>
  C4. A row of the order history gives an income only when its state is \<open>filled\<close> and
  its pnl is not zero, and then exactly one, whose amount is pnl + fee: the incomes of
  a page are, in the order of the rows, one for each filled row with a pnl other than
  zero, with that row's pnl + fee as amount and that row's order id as transaction id;
  a row in another state and a filled row with pnl 0 give none. A page whose rows can
  all be read is processed to the end.
\<close>

theorem filled_rows_give_incomes:
  "(list_all (readable_trade env) page \<longrightarrow>
      (\<exists>out c. trades_loop env page [] cur = (Inr out, c)))
   \<and> (\<forall>out c. trades_loop env page [] cur = (Inr out, c) \<longrightarrow>
        map inc_income out =
          map (\<lambda>t. float_field env t ''pnl'' + float_field env t ''fee'')
            (filter (\<lambda>t. filled t \<and> float_field env t ''pnl'' \<noteq> 0) page)
        \<and> map inc_transaction_id out =
          map (\<lambda>t. dict_get t ''orderId'' (PStr []))
            (filter (\<lambda>t. filled t \<and> float_field env t ''pnl'' \<noteq> 0) page))"
proof (intro conjI allI impI)
  assume "list_all (readable_trade env) page"
  then show "\<exists>out c. trades_loop env page [] cur = (Inr out, c)"
    by (rule trades_loop_completes)
next
  fix out c
  assume "trades_loop env page [] cur = (Inr out, c)"
  from trades_loop_incomes [OF this]
  show "map inc_income out =
          map (\<lambda>t. float_field env t ''pnl'' + float_field env t ''fee'')
            (filter (\<lambda>t. filled t \<and> float_field env t ''pnl'' \<noteq> 0) page)"
    and "map inc_transaction_id out =
          map (\<lambda>t. dict_get t ''orderId'' (PStr []))
            (filter (\<lambda>t. filled t \<and> float_field env t ''pnl'' \<noteq> 0) page)"
    by auto
qed

lemmas eval_simps = sample_env_def read_decimal_def digit_of_def dict_get_def filled_def
  make_income_def Let_def float_field_def readable_trade_def replace_dash_def
  order_id_of_def order_id_value_def spec_max_order_id_def List.map_filter_def
  sync_trades_cycle_def

theorem filled_rows_give_incomes_witness:
  "trades_loop sample_env
     [[''state'' \<mapsto> PStr ''canceled'', ''pnl'' \<mapsto> PStr ''7'', ''orderId'' \<mapsto> PStr ''10''],
      [''state'' \<mapsto> PStr ''filled'', ''pnl'' \<mapsto> PStr ''0'', ''fee'' \<mapsto> PFloat (-1),
       ''orderId'' \<mapsto> PStr ''11''],
      [''state'' \<mapsto> PStr ''filled'', ''pnl'' \<mapsto> PFloat 2.5, ''fee'' \<mapsto> PFloat (-0.5),
       ''instId'' \<mapsto> PStr ''BTC-USDT'', ''updateTime'' \<mapsto> PStr ''1700000000001'',
       ''orderId'' \<mapsto> PStr ''12'']] [] PNone
   = (Inr [\<lparr>inc_symbol = ''BTCUSDT'', inc_asset = ''USDT'', inc_type = ''REALIZED_PNL'',
            inc_income = 2, inc_timestamp = 1700000000001,
            inc_transaction_id = PStr ''12''\<rparr>], PStr ''12'')"
  using filled_rows_give_incomes [of sample_env
     "[[''state'' \<mapsto> PStr ''canceled'', ''pnl'' \<mapsto> PStr ''7'', ''orderId'' \<mapsto> PStr ''10''],
      [''state'' \<mapsto> PStr ''filled'', ''pnl'' \<mapsto> PStr ''0'', ''fee'' \<mapsto> PFloat (-1),
       ''orderId'' \<mapsto> PStr ''11''],
      [''state'' \<mapsto> PStr ''filled'', ''pnl'' \<mapsto> PFloat 2.5, ''fee'' \<mapsto> PFloat (-0.5),
       ''instId'' \<mapsto> PStr ''BTC-USDT'', ''updateTime'' \<mapsto> PStr ''1700000000001'',
       ''orderId'' \<mapsto> PStr ''12'']]" PNone]
  by (simp add: eval_simps)

text \<open>
  C1 (as amended). After a cycle that fetched a page and processed it to the end, the
  pagination cursor is the order id of the last row of the page that is filled and has
  a truthy order id, whether or not that row had a pnl other than zero; when the page
  has no such row the cursor is unchanged. It is the last such id of the page, not the
  greatest, and a row in another state does not move it.
\<close>

theorem cursor_after_page:
  assumes "get_order_history (if truthy cur then Some cur else None) = Inr (Some page)"
    and "sync_trades_cycle env get_order_history cur = (Inr sent, c)"
  shows "c = (case filter (\<lambda>t. filled t \<and> truthy (order_id_of t)) page of
                [] \<Rightarrow> cur
              | ts \<Rightarrow> order_id_of (last ts))"
proof -
  from assms obtain out where "trades_loop env page [] cur = (Inr out, c)"
    by (auto simp: sync_trades_cycle_def split: prod.splits sum.splits)
  then show ?thesis by (rule trades_loop_cursor)
qed

theorem cursor_after_page_witness:
  "sync_trades_cycle sample_env
     (\<lambda>after. Inr (Some
        [[''state'' \<mapsto> PStr ''filled'', ''pnl'' \<mapsto> PStr ''0'', ''orderId'' \<mapsto> PStr ''7''],
         [''state'' \<mapsto> PStr ''filled'', ''pnl'' \<mapsto> PStr ''0'', ''orderId'' \<mapsto> PStr ''8'']]))
     PNone
   = (Inr None, PStr ''8'')"
  using cursor_after_page [of
     "\<lambda>after. Inr (Some
        [[''state'' \<mapsto> PStr ''filled'', ''pnl'' \<mapsto> PStr ''0'', ''orderId'' \<mapsto> PStr ''7''],
         [''state'' \<mapsto> PStr ''filled'', ''pnl'' \<mapsto> PStr ''0'', ''orderId'' \<mapsto> PStr ''8'']])"
     PNone _ sample_env None "PStr ''8''"]
  by (simp add: eval_simps)

text \<open>
  Two pages on which the cursor is not the greatest order id of the page: on the first
  the greatest id is not in the last row, on the second it is in a row that is not
  filled.
\<close>

theorem cursor_is_not_page_maximum:
  "py_int sample_env (snd (sync_trades_cycle sample_env
     (\<lambda>after. Inr (Some
        [[''state'' \<mapsto> PStr ''filled'', ''pnl'' \<mapsto> PStr ''0'', ''orderId'' \<mapsto> PStr ''5''],
         [''state'' \<mapsto> PStr ''filled'', ''pnl'' \<mapsto> PStr ''0'', ''orderId'' \<mapsto> PStr ''3'']]))
     PNone)) = Inr 3
   \<and> spec_max_order_id sample_env
        [[''state'' \<mapsto> PStr ''filled'', ''pnl'' \<mapsto> PStr ''0'', ''orderId'' \<mapsto> PStr ''5''],
         [''state'' \<mapsto> PStr ''filled'', ''pnl'' \<mapsto> PStr ''0'', ''orderId'' \<mapsto> PStr ''3'']]
      = Some 5
   \<and> py_int sample_env (snd (sync_trades_cycle sample_env
     (\<lambda>after. Inr (Some
        [[''state'' \<mapsto> PStr ''filled'', ''pnl'' \<mapsto> PStr ''0'', ''orderId'' \<mapsto> PStr ''3''],
         [''state'' \<mapsto> PStr ''canceled'', ''orderId'' \<mapsto> PStr ''9'']]))
     PNone)) = Inr 3
   \<and> spec_max_order_id sample_env
        [[''state'' \<mapsto> PStr ''filled'', ''pnl'' \<mapsto> PStr ''0'', ''orderId'' \<mapsto> PStr ''3''],
         [''state'' \<mapsto> PStr ''canceled'', ''orderId'' \<mapsto> PStr ''9'']]
      = Some 9"
  by (simp add: eval_simps)

end
